theory Spec2Isabelle
  imports Complex_Main
begin

section \<open>Window feature aggregation (\<^verbatim>\<open>get_features\<close> of \<^verbatim>\<open>02_feature_engineering.py\<close>)\<close>

text \<open>
  The function under study builds a Spark data frame of per-household (or per household and
  commodity) features from a transaction table.  The embedding keeps its steps: the anchor
  key set, the collected day bounds, the window adjustment, the windowed summary, the
  days-since metrics, the two left outer joins and the renaming loop.

  Modelling conventions:
  \<^item> a calendar date is the number of its day counted from 1970-01-01, as Spark stores it,
    so that \<^verbatim>\<open>timedelta\<close> arithmetic and date comparison are integer arithmetic and
    comparison; where the source turns a date into a string, the model builds the text
    \<^verbatim>\<open>YYYY-MM-DD\<close> of the day;
  \<^item> a metric value is a rational number or SQL null (\<open>None\<close>).  The program computes with
    doubles: a sum of several values is rounded there and exact here, and the order in
    which Spark adds is not fixed; a quotient stands for the double nearest to it.  No
    statement below depends on the value of a sum of more than one number;
  \<^item> the fields of a transaction are never null (the adjusted transaction table coalesces
    every monetary field), nulls arise only from SQL expressions and joins;
  \<^item> the row order of a data frame is the order of first occurrence of the keys; the
    statements use the set of the keys and their distinctness only;
  \<^item> building a data frame is lazy and runs nothing, collecting rows runs a job; the
    function is a sequence of such steps, each leaving an event in a log, and an
    exception ends the sequence.
\<close>

subsection \<open>Transactions and grouping keys\<close>

record transaction =
  household_key :: int
  basket_id :: int
  product_id :: int
  commodity_desc :: string
  day :: int
  amount_list :: rat
  instore_discount :: rat
  campaign_coupon_discount :: rat
  manuf_coupon_discount :: rat
  total_coupon_discount :: rat
  amount_paid :: rat

text \<open>A grouping key: the household, and the commodity when \<^verbatim>\<open>include_commodity\<close> is set.\<close>

type_synonym key = "int \<times> string option"

definition grouping_key :: "bool \<Rightarrow> transaction \<Rightarrow> key" where
  "grouping_key include_commodity t =
     (household_key t, if include_commodity then Some (commodity_desc t) else None)"

subsection \<open>Data frames of metrics\<close>

text \<open>
  A frame has the names of its metric columns and, per row, the grouping key and one value
  per metric column.
\<close>

record frame =
  columns :: "string list"
  rows :: "(key \<times> rat option list) list"

type_synonym metric = "transaction list \<Rightarrow> rat option"

subsection \<open>SQL aggregates and expressions\<close>

primrec non_null :: "'a option list \<Rightarrow> 'a list" where
  "non_null [] = []"
| "non_null (x # xs) = (case x of None \<Rightarrow> non_null xs | Some v \<Rightarrow> v # non_null xs)"

definition count_distinct :: "'a option list \<Rightarrow> nat" where
  "count_distinct xs = length (remdups (non_null xs))"

definition sql_count :: "'a option list \<Rightarrow> nat" where
  "sql_count xs = length (non_null xs)"

definition sql_sum :: "rat option list \<Rightarrow> rat option" where
  "sql_sum xs = (case non_null xs of [] \<Rightarrow> None | y # ys \<Rightarrow> Some (sum_list (y # ys)))"

definition sql_min :: "('a :: linorder) option list \<Rightarrow> 'a option" where
  "sql_min xs = (case non_null xs of [] \<Rightarrow> None | y # ys \<Rightarrow> Some (fold min ys y))"

definition sql_max :: "('a :: linorder) option list \<Rightarrow> 'a option" where
  "sql_max xs = (case non_null xs of [] \<Rightarrow> None | y # ys \<Rightarrow> Some (fold max ys y))"

text \<open>Division yields null on a null operand and on a zero divisor.\<close>

definition sql_div :: "rat option \<Rightarrow> rat option \<Rightarrow> rat option" where
  "sql_div a b =
     (case a of None \<Rightarrow> None
      | Some x \<Rightarrow> (case b of None \<Rightarrow> None
                   | Some y \<Rightarrow> if y = 0 then None else Some (x / y)))"

text \<open>A plain column, and \<^verbatim>\<open>case when X > 0 then v else null end\<close>.\<close>

definition col :: "(transaction \<Rightarrow> 'a) \<Rightarrow> transaction \<Rightarrow> 'a option" where
  "col f t = Some (f t)"

definition when_positive :: "(transaction \<Rightarrow> rat) \<Rightarrow> (transaction \<Rightarrow> 'a) \<Rightarrow> transaction \<Rightarrow> 'a option" where
  "when_positive x v t = (if x t > 0 then Some (v t) else None)"

definition count_distinct_of :: "(transaction \<Rightarrow> int option) \<Rightarrow> metric" where
  "count_distinct_of e g = Some (of_nat (count_distinct (map e g)))"

definition count_of :: "(transaction \<Rightarrow> int option) \<Rightarrow> metric" where
  "count_of e g = Some (of_nat (sql_count (map e g)))"

definition count_star :: metric where
  "count_star g = Some (of_nat (length g))"

definition sum_of :: "(transaction \<Rightarrow> rat option) \<Rightarrow> metric" where
  "sum_of e g = sql_sum (map e g)"

definition min_of :: "(transaction \<Rightarrow> rat option) \<Rightarrow> metric" where
  "min_of e g = sql_min (map e g)"

definition ratio :: "metric \<Rightarrow> metric \<Rightarrow> metric" where
  "ratio a b g = sql_div (a g) (b g)"

definition per_literal :: "metric \<Rightarrow> int \<Rightarrow> metric" where
  "per_literal a n g = sql_div (a g) (Some (of_int n))"

subsection \<open>Dates as strings\<close>

text \<open>
  \<^verbatim>\<open>strftime('%Y-%m-%d')\<close> at lines 121 and 122, and the cast of a date column to a string
  in SQL, give the text of a day: year, month and day of the month in decimal digits.  The
  year, month and day of a day number are those of the proleptic Gregorian calendar.
\<close>

definition civil_from_days :: "int \<Rightarrow> int \<times> int \<times> int" where
  "civil_from_days n =
     (let z = n + 719468;
          era = z div 146097;
          doe = z mod 146097;
          yoe = (doe - doe div 1460 + doe div 36524 - doe div 146096) div 365;
          doy = doe - (365 * yoe + yoe div 4 - yoe div 100);
          mp = (5 * doy + 2) div 153;
          d = doy - (153 * mp + 2) div 5 + 1;
          m = (if mp < 10 then mp + 3 else mp - 9);
          y = yoe + era * 400 + (if m \<le> 2 then 1 else 0)
      in (y, m, d))"

definition digit_char :: "nat \<Rightarrow> char" where
  "digit_char n = ''0123456789'' ! (n mod 10)"

definition two_digits :: "nat \<Rightarrow> string" where
  "two_digits n = [digit_char (n div 10), digit_char n]"

definition four_digits :: "nat \<Rightarrow> string" where
  "four_digits n =
     [digit_char (n div 1000), digit_char (n div 100), digit_char (n div 10), digit_char n]"

definition date_text :: "int \<Rightarrow> string" where
  "date_text n =
     (case civil_from_days n of
        (y, m, d) \<Rightarrow> four_digits (nat y) @ ''-'' @ two_digits (nat m) @ ''-'' @ two_digits (nat d))"

text \<open>
  The cast of a string to double is null when the string is no numeral.  The model reads
  decimal numerals with an optional sign and an optional fraction; exponents, type
  suffixes and the special literals of Spark are left out, no text of a date is one of
  them.
\<close>

definition is_digit :: "char \<Rightarrow> bool" where
  "is_digit c = (c \<in> set ''0123456789'')"

definition digit_value :: "char \<Rightarrow> nat" where
  "digit_value c = length (takeWhile (\<lambda>x. x \<noteq> c) ''0123456789'')"

definition integer_part :: "string \<Rightarrow> rat" where
  "integer_part ds = of_nat (foldl (\<lambda>a c. 10 * a + digit_value c) 0 ds)"

definition fraction_part :: "string \<Rightarrow> rat" where
  "fraction_part ds = foldr (\<lambda>c a. (of_nat (digit_value c) + a) / 10) ds 0"

definition unsigned_decimal :: "string \<Rightarrow> rat option" where
  "unsigned_decimal s =
     (let ip = takeWhile is_digit s; r = dropWhile is_digit s
      in (case r of
            [] \<Rightarrow> if ip = [] then None else Some (integer_part ip)
          | c # fp \<Rightarrow>
              if c = CHR ''.'' \<and> list_all is_digit fp \<and> (ip \<noteq> [] \<or> fp \<noteq> [])
              then Some (integer_part ip + fraction_part fp) else None))"

definition cast_string_to_double :: "string \<Rightarrow> rat option" where
  "cast_string_to_double s =
     (case s of
        [] \<Rightarrow> None
      | c # cs \<Rightarrow>
          if c = CHR ''-'' then map_option uminus (unsigned_decimal cs)
          else if c = CHR ''+'' then unsigned_decimal cs
          else unsigned_decimal s)"

text \<open>
  The difference of two strings in SQL: an arithmetic operator on strings casts both
  operands to double, and is null when either cast is.
\<close>

definition string_minus :: "string \<Rightarrow> string \<Rightarrow> rat option" where
  "string_minus a b =
     (case cast_string_to_double a of None \<Rightarrow> None
      | Some x \<Rightarrow> (case cast_string_to_double b of None \<Rightarrow> None | Some y \<Rightarrow> Some (x - y)))"

subsection \<open>The aggregated columns\<close>

definition m_days :: metric where
  "m_days = count_distinct_of (col day)"

definition m_baskets :: metric where
  "m_baskets = count_distinct_of (col basket_id)"

definition m_products :: metric where
  "m_products = count_of (col product_id)"

definition m_line_items :: metric where
  "m_line_items = count_star"

definition m_sum :: "(transaction \<Rightarrow> rat) \<Rightarrow> metric" where
  "m_sum x = sum_of (col x)"

definition days_with :: "(transaction \<Rightarrow> rat) \<Rightarrow> metric" where
  "days_with x = count_distinct_of (when_positive x day)"

definition baskets_with :: "(transaction \<Rightarrow> rat) \<Rightarrow> metric" where
  "baskets_with x = count_distinct_of (when_positive x basket_id)"

definition products_with :: "(transaction \<Rightarrow> rat) \<Rightarrow> metric" where
  "products_with x = count_distinct_of (when_positive x product_id)"

definition line_items_with :: "(transaction \<Rightarrow> rat) \<Rightarrow> metric" where
  "line_items_with x = sum_of (when_positive x (\<lambda>_. 1))"

text \<open>The aggregation of the summary frame, in the order of the source.\<close>

definition summary_aggs :: "(string \<times> metric) list" where
  "summary_aggs =
    [(''days'', m_days),
     (''baskets'', m_baskets),
     (''products'', m_products),
     (''line_items'', m_line_items),
     (''amount_list'', m_sum amount_list),
     (''instore_discount'', m_sum instore_discount),
     (''campaign_coupon_discount'', m_sum campaign_coupon_discount),
     (''manuf_coupon_discount'', m_sum manuf_coupon_discount),
     (''total_coupon_discount'', m_sum total_coupon_discount),
     (''amount_paid'', m_sum amount_paid),
     (''days_with_instore_discount'', days_with instore_discount),
     (''days_with_campaign_coupon_discount'', days_with campaign_coupon_discount),
     (''days_with_manuf_coupon_discount'', days_with manuf_coupon_discount),
     (''days_with_total_coupon_discount'', days_with total_coupon_discount),
     (''baskets_with_instore_discount'', baskets_with instore_discount),
     (''baskets_with_campaign_coupon_discount'', baskets_with campaign_coupon_discount),
     (''baskets_with_manuf_coupon_discount'', baskets_with manuf_coupon_discount),
     (''baskets_with_total_coupon_discount'', baskets_with total_coupon_discount),
     (''products_with_instore_discount'', products_with instore_discount),
     (''products_with_campaign_coupon_discount'', products_with campaign_coupon_discount),
     (''products_with_manuf_coupon_discount'', products_with manuf_coupon_discount),
     (''products_with_total_coupon_discount'', products_with total_coupon_discount),
     (''line_items_with_instore_discount'', line_items_with instore_discount),
     (''line_items_with_campaign_coupon_discount'', line_items_with campaign_coupon_discount),
     (''line_items_with_manuf_coupon_discount'', line_items_with manuf_coupon_discount),
     (''line_items_with_total_coupon_discount'', line_items_with total_coupon_discount)]"

text \<open>
  The chain of \<^verbatim>\<open>withColumn\<close> calls.  Every expression divides two columns that exist at
  that point of the chain, or a column by the literal \<^verbatim>\<open>days_in_window\<close>; the column
  referred to by name is written as the metric that defines it.
\<close>

definition per_day_ratios :: "string \<Rightarrow> (string \<times> metric) list" where
  "per_day_ratios window_suffix =
    [(''baskets_per_day'', ratio m_baskets m_days),
     (''products_per_day'' @ window_suffix, ratio m_products m_days),
     (''line_items_per_day'', ratio m_line_items m_days),
     (''amount_list_per_day'', ratio (m_sum amount_list) m_days),
     (''instore_discount_per_day'', ratio (m_sum instore_discount) m_days),
     (''campaign_coupon_discount_per_day'', ratio (m_sum campaign_coupon_discount) m_days),
     (''manuf_coupon_discount_per_day'', ratio (m_sum manuf_coupon_discount) m_days),
     (''total_coupon_discount_per_day'', ratio (m_sum total_coupon_discount) m_days),
     (''amount_paid_per_day'', ratio (m_sum amount_paid) m_days),
     (''days_with_instore_discount_per_days'', ratio (days_with instore_discount) m_days),
     (''days_with_campaign_coupon_discount_per_days'', ratio (days_with campaign_coupon_discount) m_days),
     (''days_with_manuf_coupon_discount_per_days'', ratio (days_with manuf_coupon_discount) m_days),
     (''days_with_total_coupon_discount_per_days'', ratio (days_with total_coupon_discount) m_days)]"

definition per_days_in_set_ratios :: "int \<Rightarrow> (string \<times> metric) list" where
  "per_days_in_set_ratios days_in_window =
    [(''days_to_days_in_set'', per_literal m_days days_in_window),
     (''baskets_per_days_in_set'', per_literal m_baskets days_in_window),
     (''products_to_days_in_set'', per_literal m_products days_in_window),
     (''line_items_per_days_in_set'', per_literal m_line_items days_in_window),
     (''amount_list_per_days_in_set'', per_literal (m_sum amount_list) days_in_window),
     (''instore_discount_per_days_in_set'', per_literal (m_sum instore_discount) days_in_window),
     (''campaign_coupon_discount_per_days_in_set'', per_literal (m_sum campaign_coupon_discount) days_in_window),
     (''manuf_coupon_discount_per_days_in_set'', per_literal (m_sum manuf_coupon_discount) days_in_window),
     (''total_coupon_discount_per_days_in_set'', per_literal (m_sum total_coupon_discount) days_in_window),
     (''amount_paid_per_days_in_set'', per_literal (m_sum amount_paid) days_in_window),
     (''days_with_instore_discount_per_days_in_set'', per_literal (days_with instore_discount) days_in_window),
     (''days_with_campaign_coupon_discount_per_days_in_set'', per_literal (days_with campaign_coupon_discount) days_in_window),
     (''days_with_manuf_coupon_discount_per_days_in_set'', per_literal (days_with manuf_coupon_discount) days_in_window),
     (''days_with_total_coupon_discount_per_days_in_set'', per_literal (days_with total_coupon_discount) days_in_window)]"

definition per_basket_ratios :: "(string \<times> metric) list" where
  "per_basket_ratios =
    [(''products_per_basket'', ratio m_products m_baskets),
     (''line_items_per_basket'', ratio m_line_items m_baskets),
     (''amount_list_per_basket'', ratio (m_sum amount_list) m_baskets),
     (''instore_discount_per_basket'', ratio (m_sum instore_discount) m_baskets),
     (''campaign_coupon_discount_per_basket'', ratio (m_sum campaign_coupon_discount) m_baskets),
     (''manuf_coupon_discount_per_basket'', ratio (m_sum manuf_coupon_discount) m_baskets),
     (''total_coupon_discount_per_basket'', ratio (m_sum total_coupon_discount) m_baskets),
     (''amount_paid_per_basket'', ratio (m_sum amount_paid) m_baskets),
     (''baskets_with_instore_discount_per_baskets'', ratio (baskets_with instore_discount) m_baskets),
     (''baskets_with_campaign_coupon_discount_per_baskets'', ratio (baskets_with campaign_coupon_discount) m_baskets),
     (''baskets_with_manuf_coupon_discount_per_baskets'', ratio (baskets_with manuf_coupon_discount) m_baskets),
     (''baskets_with_total_coupon_discount_per_baskets'', ratio (baskets_with total_coupon_discount) m_baskets)]"

definition per_product_ratios :: "(string \<times> metric) list" where
  "per_product_ratios =
    [(''line_items_per_product'', ratio m_line_items m_products),
     (''amount_list_per_product'', ratio (m_sum amount_list) m_products),
     (''instore_discount_per_product'', ratio (m_sum instore_discount) m_products),
     (''campaign_coupon_discount_per_product'', ratio (m_sum campaign_coupon_discount) m_products),
     (''manuf_coupon_discount_per_product'', ratio (m_sum manuf_coupon_discount) m_products),
     (''total_coupon_discount_per_product'', ratio (m_sum total_coupon_discount) m_products),
     (''amount_paid_per_product'', ratio (m_sum amount_paid) m_products),
     (''products_with_instore_discount_per_product'', ratio (products_with instore_discount) m_products),
     (''products_with_campaign_coupon_discount_per_product'', ratio (products_with campaign_coupon_discount) m_products),
     (''products_with_manuf_coupon_discount_per_product'', ratio (products_with manuf_coupon_discount) m_products),
     (''products_with_total_coupon_discount_per_product'', ratio (products_with total_coupon_discount) m_products)]"

definition per_line_item_ratios :: "(string \<times> metric) list" where
  "per_line_item_ratios =
    [(''amount_list_per_line_item'', ratio (m_sum amount_list) m_line_items),
     (''instore_discount_per_line_item'', ratio (m_sum instore_discount) m_line_items),
     (''campaign_coupon_discount_per_line_item'', ratio (m_sum campaign_coupon_discount) m_line_items),
     (''manuf_coupon_discount_per_line_item'', ratio (m_sum manuf_coupon_discount) m_line_items),
     (''total_coupon_discount_per_line_item'', ratio (m_sum total_coupon_discount) m_line_items),
     (''amount_paid_per_line_item'', ratio (m_sum amount_paid) m_line_items),
     (''products_with_instore_discount_per_line_item'', ratio (products_with instore_discount) m_line_items),
     (''products_with_campaign_coupon_discount_per_line_item'', ratio (products_with campaign_coupon_discount) m_line_items),
     (''products_with_manuf_coupon_discount_per_line_item'', ratio (products_with manuf_coupon_discount) m_line_items),
     (''products_with_total_coupon_discount_per_line_item'', ratio (products_with total_coupon_discount) m_line_items)]"

definition amount_list_ratios :: "(string \<times> metric) list" where
  "amount_list_ratios =
    [(''campaign_coupon_discount_to_amount_list'', ratio (m_sum campaign_coupon_discount) (m_sum amount_list)),
     (''manuf_coupon_discount_to_amount_list'', ratio (m_sum manuf_coupon_discount) (m_sum amount_list)),
     (''total_coupon_discount_to_amount_list'', ratio (m_sum total_coupon_discount) (m_sum amount_list)),
     (''amount_paid_to_amount_list'', ratio (m_sum amount_paid) (m_sum amount_list))]"

definition summary_metrics :: "string \<Rightarrow> int \<Rightarrow> (string \<times> metric) list" where
  "summary_metrics window_suffix days_in_window =
     summary_aggs @ per_day_ratios window_suffix @ per_days_in_set_ratios days_in_window
       @ per_basket_ratios @ per_product_ratios @ per_line_item_ratios @ amount_list_ratios"

text \<open>
  The days-since aggregation:
  \<^verbatim>\<open>min('{max_day}' - case when X > 0 then day else '{min_day}' end)\<close>,
  where \<^verbatim>\<open>min_day\<close> and \<^verbatim>\<open>max_day\<close> are the adjusted bounds of the window, turned into
  strings at lines 121 and 122.  One branch of the \<^verbatim>\<open>case\<close> is a date and the other a
  string, so the expression is a string and the day is cast to its text; the left operand
  is a string as well, and the subtraction is the one of two strings.
\<close>

definition days_since :: "(transaction \<Rightarrow> rat) \<Rightarrow> int \<Rightarrow> int \<Rightarrow> metric" where
  "days_since x min_day max_day =
     min_of (\<lambda>t. string_minus (date_text max_day)
                    (if x t > 0 then date_text (day t) else date_text min_day))"

definition dayssince_metrics :: "int \<Rightarrow> int \<Rightarrow> (string \<times> metric) list" where
  "dayssince_metrics min_day max_day =
    [(''days_since_instore_discount'', days_since instore_discount min_day max_day),
     (''days_since_campaign_coupon_discount'', days_since campaign_coupon_discount min_day max_day),
     (''days_since_manuf_coupon_discount'', days_since manuf_coupon_discount min_day max_day),
     (''days_since_total_coupon_discount'', days_since total_coupon_discount min_day max_day)]"

subsection \<open>Relational operators\<close>

text \<open>\<^verbatim>\<open>select(grouping_fields).distinct()\<close>: the distinct keys, no metric column.\<close>

definition select_distinct :: "bool \<Rightarrow> transaction list \<Rightarrow> frame" where
  "select_distinct include_commodity xs =
     \<lparr>columns = [], rows = map (\<lambda>k. (k, [])) (remdups (map (grouping_key include_commodity) xs))\<rparr>"

text \<open>\<^verbatim>\<open>groupBy(grouping_fields).agg(...)\<close>: one row per key that occurs in the input.\<close>

definition group_by_agg :: "bool \<Rightarrow> (string \<times> metric) list \<Rightarrow> transaction list \<Rightarrow> frame" where
  "group_by_agg include_commodity ms xs =
     \<lparr>columns = map fst ms,
      rows = map (\<lambda>k. (k, map (\<lambda>(n, m). m (filter (\<lambda>t. grouping_key include_commodity t = k) xs)) ms))
               (remdups (map (grouping_key include_commodity) xs))\<rparr>"

text \<open>
  \<^verbatim>\<open>l.join(r, on=grouping_fields, how='leftouter')\<close>: every row of \<open>l\<close> once per matching
  row of \<open>r\<close>, and once with nulls when no row of \<open>r\<close> matches.
\<close>

definition left_outer_join :: "frame \<Rightarrow> frame \<Rightarrow> frame" where
  "left_outer_join l r =
     \<lparr>columns = columns l @ columns r,
      rows = concat (map (\<lambda>(k, vs).
               (case filter (\<lambda>(k', ws). k' = k) (rows r) of
                  [] \<Rightarrow> [(k, vs @ replicate (length (columns r)) None)]
                | m # ms \<Rightarrow> map (\<lambda>(k', ws). (k, vs @ ws)) (m # ms))) (rows l))\<rparr>"

text \<open>The cast of a column to double keeps its values; renaming changes every column of that name.\<close>

definition cast_double :: "string \<Rightarrow> frame \<Rightarrow> frame" where
  "cast_double c fr = fr"

definition withColumnRenamed :: "string \<Rightarrow> string \<Rightarrow> frame \<Rightarrow> frame" where
  "withColumnRenamed old new fr = fr\<lparr>columns := map (\<lambda>c. if c = old then new else c) (columns fr)\<rparr>"

text \<open>
  The renaming loop runs over the column names of the joined frame read once before the
  loop: the grouping fields followed by the metric columns.
\<close>

definition rename_fields :: "string list \<Rightarrow> string \<Rightarrow> string \<Rightarrow> frame \<Rightarrow> frame" where
  "rename_fields grouping_fields grouping_suffix window_suffix ret_df =
     fold (\<lambda>c fr. if c \<in> set grouping_fields then fr
                  else withColumnRenamed c (c @ grouping_suffix @ window_suffix) (cast_double c fr))
          (grouping_fields @ columns ret_df) ret_df"

subsection \<open>The window\<close>

datatype error = Unknown_window_definition | TypeError_None_minus_timedelta

text \<open>
  \<^verbatim>\<open>df.groupBy().agg(min('day'), max('day')).collect()[0]\<close>: one row always, with nulls
  (Python \<^verbatim>\<open>None\<close>) when \<open>df\<close> has no rows.
\<close>

definition dataset_bounds :: "transaction list \<Rightarrow> int option \<times> int option" where
  "dataset_bounds df = (sql_min (map (col day) df), sql_max (map (col day) df))"

text \<open>
  The \<^verbatim>\<open>if\<close>/\<^verbatim>\<open>elif\<close> chain on the window token: the suffix and the adjusted bounds.
  Subtracting a \<^verbatim>\<open>timedelta\<close> from \<^verbatim>\<open>None\<close> raises a \<^verbatim>\<open>TypeError\<close>.
\<close>

definition minus_days :: "int option \<Rightarrow> int \<Rightarrow> error + int" where
  "minus_days d n = (case d of None \<Rightarrow> Inl TypeError_None_minus_timedelta | Some x \<Rightarrow> Inr (x - n))"

definition adjust_window :: "string option \<Rightarrow> int option \<Rightarrow> error + (string \<times> int \<times> int)" where
  "adjust_window window max_day =
     (if window = Some ''30d'' then
        (case minus_days max_day (30 - 1) of Inl e \<Rightarrow> Inl e
         | Inr min_day \<Rightarrow> Inr (''_'' @ the window, min_day, the max_day))
      else if window = Some ''60d'' then
        (case minus_days max_day (60 - 1) of Inl e \<Rightarrow> Inl e
         | Inr min_day \<Rightarrow> Inr (''_'' @ the window, min_day, the max_day))
      else if window = Some ''90d'' then
        (case minus_days max_day (90 - 1) of Inl e \<Rightarrow> Inl e
         | Inr min_day \<Rightarrow> Inr (''_'' @ the window, min_day, the max_day))
      else if window = Some ''1yr'' then
        (case minus_days max_day (365 - 1) of Inl e \<Rightarrow> Inl e
         | Inr min_day \<Rightarrow> Inr (''_'' @ the window, min_day, min_day + (30 - 1)))
      else Inl Unknown_window_definition)"

definition days_in_window_of :: "int \<Rightarrow> int \<Rightarrow> int" where
  "days_in_window_of min_day max_day = (max_day - min_day) + 1"

subsection \<open>The function\<close>

text \<open>
  The statements of the function are steps that run one after the other.  A step that
  assigns a data frame builds its plan and runs nothing (\<open>Plan\<close>, with the name of the
  variable); \<^verbatim>\<open>collect()\<close> runs the aggregation it is applied to (\<open>Collect_min_max_day\<close>, the
  only job of the function); a computation in Python leaves no event.  Each step may raise,
  and then the steps after it do not run: the log of a call holds the events up to the
  exception.
\<close>

datatype event = Plan string | Collect_min_max_day

type_synonym 'a step = "event list \<times> (error + 'a)"

definition plan :: "string \<Rightarrow> 'a \<Rightarrow> 'a step" where
  "plan name fr = ([Plan name], Inr fr)"

definition collect_rows :: "event \<Rightarrow> 'a \<Rightarrow> 'a step" where
  "collect_rows job result = ([job], Inr result)"

definition evaluate :: "error + 'a \<Rightarrow> 'a step" where
  "evaluate r = ([], r)"

definition and_then :: "'a step \<Rightarrow> ('a \<Rightarrow> 'b step) \<Rightarrow> 'b step" where
  "and_then m f =
     (case snd m of
        Inl e \<Rightarrow> (fst m, Inl e)
      | Inr x \<Rightarrow> (fst m @ fst (f x), snd (f x)))"

definition summary_df :: "bool \<Rightarrow> string \<Rightarrow> int \<Rightarrow> int \<Rightarrow> int \<Rightarrow> transaction list \<Rightarrow> frame" where
  "summary_df include_commodity window_suffix days_in_window min_day max_day df =
     group_by_agg include_commodity (summary_metrics window_suffix days_in_window)
       (filter (\<lambda>t. min_day \<le> day t \<and> day t \<le> max_day) df)"

definition dayssince_df :: "bool \<Rightarrow> int \<Rightarrow> int \<Rightarrow> transaction list \<Rightarrow> frame" where
  "dayssince_df include_commodity min_day max_day df =
     group_by_agg include_commodity (dayssince_metrics min_day max_day)
       (filter (\<lambda>t. day t \<le> max_day) df)"

text \<open>
  \<open>transactions\<close> is the module-level data frame the function reads for its anchor keys;
  \<open>df\<close> is its first parameter.
\<close>

definition grouping_fields :: "bool \<Rightarrow> string list" where
  "grouping_fields include_commodity =
     [''household_key''] @ (if include_commodity then [''commodity_desc''] else [])"

definition grouping_suffix :: "bool \<Rightarrow> string" where
  "grouping_suffix include_commodity = (if include_commodity then ''_cmd'' else [])"

text \<open>
  Lines 93 to 115 of the source, from the collected bounds: the adjustment and the number
  of days of the window.  The collected \<^verbatim>\<open>min_day\<close> is overwritten by every branch that
  does not raise, so only the collected \<^verbatim>\<open>max_day\<close> reaches the adjustment.
\<close>

definition window_of_bounds ::
  "int option \<times> int option \<Rightarrow> string option \<Rightarrow> error + (string \<times> int \<times> int \<times> int)" where
  "window_of_bounds bounds window =
     (case adjust_window window (snd bounds) of
        Inl e \<Rightarrow> Inl e
      | Inr (window_suffix, min_day, max_day) \<Rightarrow>
          Inr (window_suffix, min_day, max_day, days_in_window_of min_day max_day))"

text \<open>Lines 79 to 115: the window of the bounds of \<open>df\<close>.\<close>

definition resolve_window ::
  "transaction list \<Rightarrow> string option \<Rightarrow> error + (string \<times> int \<times> int \<times> int)" where
  "resolve_window df window = window_of_bounds (dataset_bounds df) window"

definition get_features ::
  "transaction list \<Rightarrow> transaction list \<Rightarrow> bool \<Rightarrow> string option \<Rightarrow> frame step" where
  "get_features transactions df include_commodity window =
     and_then (plan ''anchor_df'' (select_distinct include_commodity transactions)) (\<lambda>anchor_df.
     and_then (collect_rows Collect_min_max_day (dataset_bounds df)) (\<lambda>bounds.
     and_then (evaluate (window_of_bounds bounds window))
       (\<lambda>(window_suffix, min_day, max_day, days_in_window).
     and_then (plan ''summary_df''
                 (summary_df include_commodity window_suffix days_in_window min_day max_day df))
       (\<lambda>summary.
     and_then (plan ''dayssince_df'' (dayssince_df include_commodity min_day max_day df))
       (\<lambda>dayssince.
     and_then (plan ''ret_df'' (left_outer_join (left_outer_join anchor_df summary) dayssince))
       (\<lambda>ret_df.
     plan ''ret_df''
       (rename_fields (grouping_fields include_commodity) (grouping_suffix include_commodity)
          window_suffix ret_df)))))))"

text \<open>
  Reading the result: the cell of a key in a named column.  The outer \<open>None\<close> says that
  the frame has no such row or column, \<open>Some None\<close> is a null.
\<close>

definition cell :: "frame \<Rightarrow> key \<Rightarrow> string \<Rightarrow> rat option option" where
  "cell fr k c =
     (case map_of (rows fr) k of None \<Rightarrow> None | Some vs \<Rightarrow> map_of (zip (columns fr) vs) c)"

text \<open>The same reading on the outcome of a call; an error has no cells and no keys.\<close>

definition feature :: "frame step \<Rightarrow> key \<Rightarrow> string \<Rightarrow> rat option option" where
  "feature r k c = (case snd r of Inl e \<Rightarrow> None | Inr fr \<Rightarrow> cell fr k c)"

definition feature_keys :: "frame step \<Rightarrow> key list" where
  "feature_keys r = (case snd r of Inl e \<Rightarrow> [] | Inr fr \<Rightarrow> map fst (rows fr))"

definition feature_columns :: "frame step \<Rightarrow> string list" where
  "feature_columns r = (case snd r of Inl e \<Rightarrow> [] | Inr fr \<Rightarrow> columns fr)"

subsection \<open>Auxiliary notions\<close>

text \<open>The names of the metric columns before the renaming loop, for a window suffix.\<close>

definition metric_names :: "string \<Rightarrow> string list" where
  "metric_names window_suffix =
     map fst (summary_metrics window_suffix 0) @ map fst (dayssince_metrics 0 0)"

text \<open>A name without the digits of the window tokens that is no grouping field.\<close>

definition plain_name :: "string \<Rightarrow> bool" where
  "plain_name x =
     (CHR ''0'' \<notin> set x \<and> CHR ''1'' \<notin> set x \<and> x \<noteq> ''products_per_day''
      \<and> x \<noteq> ''household_key'' \<and> x \<noteq> ''commodity_desc'')"

text \<open>The effect of one round of the renaming loop on a column name.\<close>

definition renamed :: "string list \<Rightarrow> string \<Rightarrow> string \<Rightarrow> string \<Rightarrow> string" where
  "renamed gf suffix c x = (if c \<in> set gf then x else if x = c then c @ suffix else x)"

text \<open>The values a left outer join with an aggregated frame adds to the row of a key.\<close>

definition agg_or_null :: "bool \<Rightarrow> (string \<times> metric) list \<Rightarrow> transaction list \<Rightarrow> key \<Rightarrow> rat option list" where
  "agg_or_null include_commodity ms xs k =
     (if k \<in> grouping_key include_commodity ` set xs
      then map (\<lambda>(n, m). m (filter (\<lambda>t. grouping_key include_commodity t = k) xs)) ms
      else replicate (length ms) None)"

text \<open>The transactions of the window, and those of the lookback of the days-since metrics.\<close>

definition in_window :: "int \<Rightarrow> int \<Rightarrow> transaction list \<Rightarrow> transaction list" where
  "in_window min_day max_day df = filter (\<lambda>t. min_day \<le> day t \<and> day t \<le> max_day) df"

definition lookback :: "int \<Rightarrow> transaction list \<Rightarrow> transaction list" where
  "lookback max_day df = filter (\<lambda>t. day t \<le> max_day) df"

definition group_of :: "bool \<Rightarrow> key \<Rightarrow> transaction list \<Rightarrow> transaction list" where
  "group_of include_commodity k xs = filter (\<lambda>t. grouping_key include_commodity t = k) xs"

subsection \<open>Notions used in the statements\<close>

text \<open>The four discount types, with the field and the column name of each.\<close>

datatype discount = Instore | Campaign_coupon | Manuf_coupon | Total_coupon

fun discount_field :: "discount \<Rightarrow> transaction \<Rightarrow> rat" where
  "discount_field Instore = instore_discount"
| "discount_field Campaign_coupon = campaign_coupon_discount"
| "discount_field Manuf_coupon = manuf_coupon_discount"
| "discount_field Total_coupon = total_coupon_discount"

fun discount_name :: "discount \<Rightarrow> string" where
  "discount_name Instore = ''instore_discount''"
| "discount_name Campaign_coupon = ''campaign_coupon_discount''"
| "discount_name Manuf_coupon = ''manuf_coupon_discount''"
| "discount_name Total_coupon = ''total_coupon_discount''"

text \<open>The name the renaming loop gives to a column: \<^verbatim>\<open>f'{c}{grouping_suffix}{window_suffix}'\<close>.\<close>

definition final_name :: "string \<Rightarrow> bool \<Rightarrow> string \<Rightarrow> string" where
  "final_name c include_commodity window_suffix =
     c @ grouping_suffix include_commodity @ window_suffix"

text \<open>Transactions for the concrete instances.\<close>

definition example_recent :: transaction where
  "example_recent =
     \<lparr>household_key = 1, basket_id = 10, product_id = 100, commodity_desc = ''MILK'', day = 100,
      amount_list = 5, instore_discount = 1, campaign_coupon_discount = 0,
      manuf_coupon_discount = 0, total_coupon_discount = 0, amount_paid = 4\<rparr>"

definition example_old :: transaction where
  "example_old =
     \<lparr>household_key = 2, basket_id = 11, product_id = 100, commodity_desc = ''MILK'', day = 0,
      amount_list = 5, instore_discount = 0, campaign_coupon_discount = 0,
      manuf_coupon_discount = 0, total_coupon_discount = 0, amount_paid = 5\<rparr>"

section \<open>Properties\<close>

lemmas tables = summary_metrics_def summary_aggs_def per_day_ratios_def per_days_in_set_ratios_def
  per_basket_ratios_def per_product_ratios_def per_line_item_ratios_def amount_list_ratios_def
  dayssince_metrics_def

subsection \<open>The renaming loop\<close>

lemma fold_rename_columns:
  "fold (\<lambda>c fr. if c \<in> set gf then fr else withColumnRenamed c (c @ sfx) (cast_double c fr)) cs fr
     = fr\<lparr>columns := map (fold (renamed gf sfx) cs) (columns fr)\<rparr>"
proof (induction cs arbitrary: fr)
  case Nil
  show ?case by simp
next
  case (Cons c cs)
  show ?case
    by (simp add: Cons.IH withColumnRenamed_def cast_double_def renamed_def)
qed

lemma rename_fields_columns:
  "rename_fields gf gs ws fr
     = fr\<lparr>columns := map (fold (renamed gf (gs @ ws)) (gf @ columns fr)) (columns fr)\<rparr>"
  unfolding rename_fields_def by (rule fold_rename_columns)

lemma fold_renamed_id:
  "(\<forall>c\<in>set cs. c \<in> set gf \<or> c \<noteq> y) \<Longrightarrow> fold (renamed gf sfx) cs y = y"
  by (induction cs) (auto simp: renamed_def)

lemma fold_renamed_hit:
  "x \<in> set cs \<Longrightarrow> x \<notin> set gf \<Longrightarrow> x @ sfx \<notin> set cs \<Longrightarrow> fold (renamed gf sfx) cs x = x @ sfx"
proof (induction cs)
  case Nil
  then show ?case by simp
next
  case (Cons c cs)
  show ?case
  proof (cases "c = x")
    case True
    have "fold (renamed gf sfx) cs (x @ sfx) = x @ sfx"
      using Cons.prems(3) by (intro fold_renamed_id) auto
    moreover have "renamed gf sfx c x = x @ sfx"
      using True Cons.prems(2) by (simp add: renamed_def)
    ultimately show ?thesis by simp
  next
    case False
    then have "renamed gf sfx c x = x" by (simp add: renamed_def)
    with False Cons show ?thesis by simp
  qed
qed

lemma rename_fields_map:
  assumes "\<forall>x\<in>set (columns fr). x \<notin> set gf \<and> x @ gs @ ws \<notin> set (columns fr)"
  shows "rename_fields gf gs ws fr = fr\<lparr>columns := map (\<lambda>c. c @ gs @ ws) (columns fr)\<rparr>"
proof -
  have "fold (renamed gf (gs @ ws)) (gf @ columns fr) x = x @ gs @ ws"
    if "x \<in> set (columns fr)" for x
  proof -
    have "fold (renamed gf (gs @ ws)) gf x = x"
      by (intro fold_renamed_id) auto
    then show ?thesis
      using that assms by (simp add: fold_renamed_hit)
  qed
  then have "map (fold (renamed gf (gs @ ws)) (gf @ columns fr)) (columns fr)
               = map (\<lambda>c. c @ gs @ ws) (columns fr)"
    by (intro map_cong) auto
  then show ?thesis by (simp add: rename_fields_columns)
qed

subsection \<open>The column names\<close>

lemma names_plain:
  "list_all (\<lambda>x. x = ''products_per_day'' @ ws \<or> plain_name x) (metric_names ws)"
  unfolding metric_names_def tables plain_name_def by simp

lemma metric_names_eq:
  "map fst (summary_metrics ws d) @ map fst (dayssince_metrics mn mx) = metric_names ws"
  unfolding metric_names_def tables by simp

lemma window_suffix_digit:
  "ws \<in> {''_30d'', ''_60d'', ''_90d'', ''_1yr''} \<Longrightarrow> \<not> plain_name (x @ gs @ ws)"
  by (auto simp: plain_name_def)

lemma names_no_clash:
  assumes ws: "ws \<in> {''_30d'', ''_60d'', ''_90d'', ''_1yr''}"
    and x: "x \<in> set (metric_names ws)"
  shows "x \<notin> set (grouping_fields ic) \<and> x @ grouping_suffix ic @ ws \<notin> set (metric_names ws)"
proof
  have px: "x = ''products_per_day'' @ ws \<or> plain_name x"
    using names_plain [of ws] x by (simp add: list_all_iff)
  then show "x \<notin> set (grouping_fields ic)"
    by (auto simp: grouping_fields_def plain_name_def)
  show "x @ grouping_suffix ic @ ws \<notin> set (metric_names ws)"
  proof
    assume "x @ grouping_suffix ic @ ws \<in> set (metric_names ws)"
    with names_plain [of ws]
    have "x @ grouping_suffix ic @ ws = ''products_per_day'' @ ws
               \<or> plain_name (x @ grouping_suffix ic @ ws)"
      unfolding list_all_iff by blast
    with window_suffix_digit [OF ws, of x "grouping_suffix ic"]
    have "x @ grouping_suffix ic @ ws = ''products_per_day'' @ ws" by blast
    then have "(x @ grouping_suffix ic) @ ws = ''products_per_day'' @ ws"
      by (simp only: append_assoc)
    then have eq: "x @ grouping_suffix ic = ''products_per_day''"
      by (simp only: append_same_eq)
    show False
    proof (cases ic)
      case True
      with eq have "last (x @ ''_cmd'') = last ''products_per_day''"
        by (simp add: grouping_suffix_def)
      then show False by simp
    next
      case False
      with eq have "x = ''products_per_day''" by (simp add: grouping_suffix_def)
      with px ws show False by (auto simp: plain_name_def)
    qed
  qed
qed

subsection \<open>Joins with aggregated frames\<close>

lemma filter_key_distinct:
  "distinct (map fst rs) \<Longrightarrow>
     filter (\<lambda>(k', ws). k' = k) rs = (case map_of rs k of None \<Rightarrow> [] | Some ws \<Rightarrow> [(k, ws)])"
proof (induction rs)
  case Nil
  show ?case by simp
next
  case (Cons r rs)
  obtain k' ws where r: "r = (k', ws)" by (cases r)
  show ?case
  proof (cases "k' = k")
    case True
    with Cons.prems r have "k \<notin> fst ` set rs" by simp
    then have "filter (\<lambda>(k', ws). k' = k) rs = []"
      by (force simp: filter_empty_conv)
    with True r show ?thesis by simp
  next
    case False
    with Cons r show ?thesis by simp
  qed
qed

lemma map_of_keyed:
  "map_of (map (\<lambda>k. (k, f k)) ks) k = (if k \<in> set ks then Some (f k) else None)"
  by (induction ks) auto

lemma concat_map_single:
  "concat (map (\<lambda>(k, vs). [g k vs]) rs) = map (\<lambda>(k, vs). g k vs) rs"
  by (induction rs) auto

lemma left_outer_join_agg:
  "left_outer_join l (group_by_agg ic ms xs)
     = \<lparr>columns = columns l @ map fst ms,
        rows = map (\<lambda>(k, vs). (k, vs @ agg_or_null ic ms xs k)) (rows l)\<rparr>"
proof -
  let ?r = "group_by_agg ic ms xs"
  have d: "distinct (map fst (rows ?r))"
    by (simp add: group_by_agg_def comp_def)
  have "(case filter (\<lambda>(k', ws). k' = k) (rows ?r) of
           [] \<Rightarrow> [(k, vs @ replicate (length (columns ?r)) None)]
         | m # ms' \<Rightarrow> map (\<lambda>(k', ws). (k, vs @ ws)) (m # ms'))
        = [(k, vs @ agg_or_null ic ms xs k)]" for k vs
    unfolding filter_key_distinct [OF d]
    by (simp add: group_by_agg_def map_of_keyed agg_or_null_def)
  then have "left_outer_join l ?r
      = \<lparr>columns = columns l @ columns ?r,
         rows = concat (map (\<lambda>(k, vs). [(k, vs @ agg_or_null ic ms xs k)]) (rows l))\<rparr>"
    unfolding left_outer_join_def by simp
  also have "columns ?r = map fst ms" by (simp add: group_by_agg_def)
  finally show ?thesis by (simp only: concat_map_single)
qed

subsection \<open>The window\<close>

lemma non_null_col: "non_null (map (col f) xs) = map f xs"
  by (induction xs) (simp_all add: col_def)

lemma dataset_bounds_nonempty:
  assumes "df \<noteq> []"
  shows "dataset_bounds df = (Some (Min (day ` set df)), Some (Max (day ` set df)))"
proof -
  obtain t ts where df: "df = t # ts" using assms by (cases df) auto
  have "fold min (map day ts) (day t) = Min (set (day t # map day ts))"
    by (simp only: Min.set_eq_fold)
  moreover have "fold max (map day ts) (day t) = Max (set (day t # map day ts))"
    by (simp only: Max.set_eq_fold)
  moreover have "non_null (map (col day) df) = day t # map day ts"
    unfolding non_null_col by (simp add: df)
  ultimately show ?thesis
    unfolding dataset_bounds_def sql_min_def sql_max_def by (simp add: df)
qed

lemma dataset_bounds_empty: "dataset_bounds [] = (None, None)"
  by (simp add: dataset_bounds_def sql_min_def sql_max_def)

lemma adjust_window_suffix:
  "adjust_window w m = Inr (ws, mn, mx) \<Longrightarrow> ws \<in> {''_30d'', ''_60d'', ''_90d'', ''_1yr''}"
  unfolding adjust_window_def minus_days_def
  by (auto split: if_splits option.splits)

lemma adjust_window_Some:
  "adjust_window (Some w) (Some d) =
     (if w = ''30d'' then Inr (''_30d'', d - 29, d)
      else if w = ''60d'' then Inr (''_60d'', d - 59, d)
      else if w = ''90d'' then Inr (''_90d'', d - 89, d)
      else if w = ''1yr'' then Inr (''_1yr'', d - 364, d - 335)
      else Inl Unknown_window_definition)"
  unfolding adjust_window_def minus_days_def by simp

lemma resolve_window_suffix:
  "resolve_window df w = Inr (ws, mn, mx, d) \<Longrightarrow> ws \<in> {''_30d'', ''_60d'', ''_90d'', ''_1yr''}"
  unfolding resolve_window_def window_of_bounds_def
  by (auto split: sum.splits dest: adjust_window_suffix)


lemma resolve_window_nonempty:
  assumes "df \<noteq> []"
  shows "resolve_window df (Some w) =
     (if w = ''30d'' then Inr (''_30d'', Max (day ` set df) - 29, Max (day ` set df), 30)
      else if w = ''60d'' then Inr (''_60d'', Max (day ` set df) - 59, Max (day ` set df), 60)
      else if w = ''90d'' then Inr (''_90d'', Max (day ` set df) - 89, Max (day ` set df), 90)
      else if w = ''1yr'' then Inr (''_1yr'', Max (day ` set df) - 364, Max (day ` set df) - 335, 30)
      else Inl Unknown_window_definition)"
  unfolding resolve_window_def window_of_bounds_def dataset_bounds_nonempty [OF assms] snd_conv
    adjust_window_Some
  by (simp add: days_in_window_of_def)

lemma resolve_window_empty:
  "resolve_window [] w =
     (if w \<in> {Some ''30d'', Some ''60d'', Some ''90d'', Some ''1yr''}
      then Inl TypeError_None_minus_timedelta else Inl Unknown_window_definition)"
  unfolding resolve_window_def window_of_bounds_def dataset_bounds_empty snd_conv adjust_window_def
    minus_days_def
  by simp

subsection \<open>Dates as strings\<close>

lemma is_digit_digit_char: "is_digit (digit_char n)"
  unfolding is_digit_def digit_char_def by (rule nth_mem) simp

lemma not_digit_minus: "\<not> is_digit CHR ''-''"
  by (simp add: is_digit_def)

lemma digit_not_sign: "is_digit c \<Longrightarrow> c \<noteq> CHR ''-'' \<and> c \<noteq> CHR ''+''"
  by (auto simp: is_digit_def)

text \<open>The text of a day has a hyphen behind the digits of the year: it is no numeral.\<close>

lemma cast_date_text: "cast_string_to_double (date_text n) = None"
proof -
  obtain y m d where c: "civil_from_days n = (y, m, d)" by (cases "civil_from_days n")
  let ?a = "digit_char (nat y div 1000)"
  have a: "is_digit ?a" by (rule is_digit_digit_char)
  have "unsigned_decimal (date_text n) = None"
    unfolding date_text_def c unsigned_decimal_def
    by (simp add: four_digits_def two_digits_def is_digit_digit_char not_digit_minus)
  then show ?thesis
    using digit_not_sign [OF a]
    unfolding cast_string_to_double_def
    by (simp add: date_text_def c four_digits_def)
qed

lemma string_minus_date: "string_minus (date_text a) b = None"
  by (simp add: string_minus_def cast_date_text)

lemma non_null_nulls: "non_null (map (\<lambda>t. None) g) = []"
  by (induction g) simp_all

lemma days_since_null: "days_since x mn mx g = None"
  unfolding days_since_def min_of_def sql_min_def string_minus_date non_null_nulls by simp

lemma dayssince_nulls:
  "agg_or_null ic (dayssince_metrics mn mx) xs k = replicate (length (dayssince_metrics mn mx)) None"
  by (simp add: agg_or_null_def dayssince_metrics_def days_since_null)

subsection \<open>The returned frame\<close>

lemma get_features_frame:
  assumes rw: "resolve_window df w = Inr (ws, mn, mx, d)"
  shows "get_features T df ic w =
     ([Plan ''anchor_df'', Collect_min_max_day, Plan ''summary_df'', Plan ''dayssince_df'',
       Plan ''ret_df'', Plan ''ret_df''],
      Inr \<lparr>columns = map (\<lambda>c. c @ grouping_suffix ic @ ws) (metric_names ws),
           rows = map (\<lambda>k. (k, agg_or_null ic (summary_metrics ws d) (in_window mn mx df) k
                              @ agg_or_null ic (dayssince_metrics mn mx) (lookback mx df) k))
                    (remdups (map (grouping_key ic) T))\<rparr>)"
proof -
  let ?sm = "summary_metrics ws d"
  let ?dm = "dayssince_metrics mn mx"
  let ?ret = "left_outer_join (left_outer_join (select_distinct ic T)
                 (summary_df ic ws d mn mx df)) (dayssince_df ic mn mx df)"
  have ret: "?ret = \<lparr>columns = metric_names ws,
       rows = map (\<lambda>k. (k, agg_or_null ic ?sm (in_window mn mx df) k @ agg_or_null ic ?dm (lookback mx df) k))
                (remdups (map (grouping_key ic) T))\<rparr>"
    unfolding summary_df_def dayssince_df_def left_outer_join_agg
    by (simp add: select_distinct_def comp_def in_window_def lookback_def metric_names_eq)
  have ws: "ws \<in> {''_30d'', ''_60d'', ''_90d'', ''_1yr''}"
    using rw by (rule resolve_window_suffix)
  have "rename_fields (grouping_fields ic) (grouping_suffix ic) ws ?ret
          = ?ret\<lparr>columns := map (\<lambda>c. c @ grouping_suffix ic @ ws) (columns ?ret)\<rparr>"
  proof (rule rename_fields_map)
    show "\<forall>x\<in>set (columns ?ret). x \<notin> set (grouping_fields ic)
            \<and> x @ grouping_suffix ic @ ws \<notin> set (columns ?ret)"
      unfolding ret using names_no_clash [OF ws] by simp
  qed
  then show ?thesis
    using rw unfolding get_features_def resolve_window_def
    by (simp add: and_then_def plan_def collect_rows_def evaluate_def ret)
qed

lemma get_features_raises:
  assumes "resolve_window df w = Inl e"
  shows "get_features T df ic w = ([Plan ''anchor_df'', Collect_min_max_day], Inl e)"
  using assms unfolding get_features_def resolve_window_def
  by (simp add: and_then_def plan_def collect_rows_def evaluate_def)

subsection \<open>Cells of the returned frame\<close>

lemma map_of_zip_suffix:
  "map_of (zip (map (\<lambda>c. c @ sfx) ns) vs) (n @ sfx) = map_of (zip ns vs) n"
proof (induction ns arbitrary: vs)
  case Nil
  show ?case by simp
next
  case (Cons a ns)
  show ?case by (cases vs) (simp_all add: Cons.IH)
qed

lemma cell_keyed:
  "cell \<lparr>columns = map (\<lambda>c. c @ sfx) ns, rows = map (\<lambda>k. (k, V k)) ks\<rparr> k (n @ sfx)
     = (if k \<in> set ks then map_of (zip ns (V k)) n else None)"
  by (simp add: cell_def map_of_keyed map_of_zip_suffix)

lemma zip_agg_or_null:
  "zip (map fst ms) (agg_or_null ic ms xs k)
     = map (\<lambda>(n, m). (n, if k \<in> grouping_key ic ` set xs then m (group_of ic k xs) else None)) ms"
  by (induction ms) (auto simp: agg_or_null_def group_of_def)

lemma length_agg_or_null: "length (agg_or_null ic ms xs k) = length ms"
  by (simp add: agg_or_null_def)

lemma map_of_mapped:
  "map_of (map (\<lambda>(n, m). (n, f m)) ms) n = map_option f (map_of ms n)"
  by (induction ms) auto

lemma map_of_zip_append:
  "length as = length vs \<Longrightarrow>
     map_of (zip (as @ bs) (vs @ ws)) n
       = (case map_of (zip as vs) n of Some v \<Rightarrow> Some v | None \<Rightarrow> map_of (zip bs ws) n)"
  by (simp add: map_add_def split: option.splits)

text \<open>The value of a metric for a key: null when the key has no transaction in the input.\<close>

lemma cell_get_features:
  assumes rw: "resolve_window df w = Inr (ws, mn, mx, d)"
    and k: "k \<in> grouping_key ic ` set T"
    and fr: "snd (get_features T df ic w) = Inr fr"
  shows "cell fr k (n @ grouping_suffix ic @ ws) =
     (case map_of (summary_metrics ws d) n of
        Some m \<Rightarrow> Some (if k \<in> grouping_key ic ` set (in_window mn mx df)
                        then m (group_of ic k (in_window mn mx df)) else None)
      | None \<Rightarrow> map_option (\<lambda>m. if k \<in> grouping_key ic ` set (lookback mx df)
                        then m (group_of ic k (lookback mx df)) else None)
                  (map_of (dayssince_metrics mn mx) n))"
proof -
  let ?sm = "summary_metrics ws d"
  let ?dm = "dayssince_metrics mn mx"
  have names: "metric_names ws = map fst ?sm @ map fst ?dm"
    by (simp only: metric_names_eq)
  have frq: "fr = \<lparr>columns = map (\<lambda>c. c @ grouping_suffix ic @ ws) (metric_names ws),
           rows = map (\<lambda>k. (k, agg_or_null ic ?sm (in_window mn mx df) k
                              @ agg_or_null ic ?dm (lookback mx df) k))
                    (remdups (map (grouping_key ic) T))\<rparr>"
    using fr unfolding get_features_frame [OF rw] by simp
  have kin: "k \<in> set (remdups (map (grouping_key ic) T))"
    using k by simp
  have "cell fr k (n @ grouping_suffix ic @ ws)
      = map_of (zip (metric_names ws)
          (agg_or_null ic ?sm (in_window mn mx df) k @ agg_or_null ic ?dm (lookback mx df) k)) n"
    unfolding frq by (simp only: cell_keyed kin if_True)
  also have "\<dots> = map_of (zip (map fst ?sm @ map fst ?dm)
          (agg_or_null ic ?sm (in_window mn mx df) k @ agg_or_null ic ?dm (lookback mx df) k)) n"
    by (simp only: names)
  also have "\<dots> = (case map_of (zip (map fst ?sm) (agg_or_null ic ?sm (in_window mn mx df) k)) n of
                     Some v \<Rightarrow> Some v
                   | None \<Rightarrow> map_of (zip (map fst ?dm) (agg_or_null ic ?dm (lookback mx df) k)) n)"
    by (rule map_of_zip_append) (simp add: length_agg_or_null)
  finally show ?thesis
    unfolding zip_agg_or_null map_of_mapped by (simp split: option.splits)
qed

subsection \<open>Features of the outcome\<close>

lemma feature_get_features:
  assumes rw: "resolve_window df w = Inr (ws, mn, mx, d)"
    and k: "k \<in> grouping_key ic ` set T"
  shows "feature (get_features T df ic w) k (n @ grouping_suffix ic @ ws) =
     (case map_of (summary_metrics ws d) n of
        Some m \<Rightarrow> Some (if k \<in> grouping_key ic ` set (in_window mn mx df)
                        then m (group_of ic k (in_window mn mx df)) else None)
      | None \<Rightarrow> map_option (\<lambda>m. if k \<in> grouping_key ic ` set (lookback mx df)
                        then m (group_of ic k (lookback mx df)) else None)
                  (map_of (dayssince_metrics mn mx) n))"
proof -
  obtain fr where fr: "snd (get_features T df ic w) = Inr fr"
    unfolding get_features_frame [OF rw] by simp
  show ?thesis
    unfolding feature_def fr using cell_get_features [OF rw k fr] by simp
qed

lemma feature_summary:
  assumes "resolve_window df w = Inr (ws, mn, mx, d)"
    and "k \<in> grouping_key ic ` set T"
    and "map_of (summary_metrics ws d) n = Some m"
  shows "feature (get_features T df ic w) k (n @ grouping_suffix ic @ ws) =
     Some (if k \<in> grouping_key ic ` set (in_window mn mx df)
           then m (group_of ic k (in_window mn mx df)) else None)"
  unfolding feature_get_features [OF assms(1,2)] assms(3) by simp


lemma feature_keys_get_features:
  assumes rw: "resolve_window df w = Inr (ws, mn, mx, d)"
  shows "feature_keys (get_features T df ic w) = remdups (map (grouping_key ic) T)"
  unfolding feature_keys_def get_features_frame [OF rw] by (simp add: comp_def)

lemma feature_columns_get_features:
  assumes rw: "resolve_window df w = Inr (ws, mn, mx, d)"
  shows "feature_columns (get_features T df ic w)
           = map (\<lambda>c. c @ grouping_suffix ic @ ws) (metric_names ws)"
  unfolding feature_columns_def get_features_frame [OF rw] by simp

subsection \<open>Looking columns up\<close>

lemma map_of_summary_metrics:
  "map_of (summary_metrics ws d) n =
     (case map_of summary_aggs n of Some v \<Rightarrow> Some v | None \<Rightarrow>
      (case map_of (per_day_ratios ws) n of Some v \<Rightarrow> Some v | None \<Rightarrow>
       (case map_of (per_days_in_set_ratios d) n of Some v \<Rightarrow> Some v | None \<Rightarrow>
        (case map_of per_basket_ratios n of Some v \<Rightarrow> Some v | None \<Rightarrow>
         (case map_of per_product_ratios n of Some v \<Rightarrow> Some v | None \<Rightarrow>
          (case map_of per_line_item_ratios n of Some v \<Rightarrow> Some v | None \<Rightarrow>
             map_of amount_list_ratios n))))))"
  unfolding summary_metrics_def map_of_append map_add_def
  by (simp split: option.splits)

lemma in_summary_aggs:
  "map_of summary_aggs n = Some m \<Longrightarrow> map_of (summary_metrics ws d) n = Some m"
  by (simp add: map_of_summary_metrics)

lemma aggs_monetary:
  "map_of summary_aggs ''amount_list'' = Some (m_sum amount_list)"
  "map_of summary_aggs ''instore_discount'' = Some (m_sum instore_discount)"
  "map_of summary_aggs ''campaign_coupon_discount'' = Some (m_sum campaign_coupon_discount)"
  "map_of summary_aggs ''manuf_coupon_discount'' = Some (m_sum manuf_coupon_discount)"
  "map_of summary_aggs ''total_coupon_discount'' = Some (m_sum total_coupon_discount)"
  "map_of summary_aggs ''amount_paid'' = Some (m_sum amount_paid)"
  unfolding summary_aggs_def by simp_all

lemma aggs_days_with:
  "map_of summary_aggs (''days_with_'' @ discount_name x) = Some (days_with (discount_field x))"
  unfolding summary_aggs_def by (cases x) simp_all

lemma aggs_baskets_with:
  "map_of summary_aggs (''baskets_with_'' @ discount_name x) = Some (baskets_with (discount_field x))"
  unfolding summary_aggs_def by (cases x) simp_all

lemma aggs_products_with:
  "map_of summary_aggs (''products_with_'' @ discount_name x) = Some (products_with (discount_field x))"
  unfolding summary_aggs_def by (cases x) simp_all

lemma aggs_line_items_with:
  "map_of summary_aggs (''line_items_with_'' @ discount_name x) = Some (line_items_with (discount_field x))"
  unfolding summary_aggs_def by (cases x) simp_all


lemma aggs_ratio_names:
  "map_of summary_aggs ''baskets_per_day'' = None"
  "map_of summary_aggs ''days_to_days_in_set'' = None"
  unfolding summary_aggs_def by simp_all

lemma lookup_baskets_per_day:
  "map_of (summary_metrics ws d) ''baskets_per_day'' = Some (ratio m_baskets m_days)"
  unfolding map_of_summary_metrics aggs_ratio_names by (simp add: per_day_ratios_def)

lemma per_day_days_to_days_in_set:
  "map_of (per_day_ratios ws) ''days_to_days_in_set'' = None"
  unfolding per_day_ratios_def by simp

lemma lookup_days_to_days_in_set:
  "map_of (summary_metrics ws d) ''days_to_days_in_set'' = Some (per_literal m_days d)"
  unfolding map_of_summary_metrics aggs_ratio_names per_day_days_to_days_in_set
  by (simp add: per_days_in_set_ratios_def)



lemma lookup_days_since:
  "map_of (dayssince_metrics mn mx) (''days_since_'' @ discount_name x)
     = Some (days_since (discount_field x) mn mx)"
  unfolding dayssince_metrics_def by (cases x) simp_all

subsection \<open>Aggregates of a group\<close>

lemma in_keys_group_of:
  "k \<in> grouping_key ic ` set xs \<longleftrightarrow> group_of ic k xs \<noteq> []"
  by (auto simp: group_of_def filter_empty_conv)

lemma non_null_Some: "non_null (map (\<lambda>t. Some (f t)) g) = map f g"
  by (induction g) simp_all

lemma non_null_never_positive:
  "\<forall>t\<in>set g. \<not> x t > 0 \<Longrightarrow> non_null (map (when_positive x v) g) = []"
  by (induction g) (simp_all add: when_positive_def)

lemma final_name_append: "final_name n ic ws = n @ grouping_suffix ic @ ws"
  by (simp add: final_name_def)


subsection \<open>The concrete instances\<close>

lemmas examples = example_recent_def example_old_def

lemma two_households_window:
  "resolve_window [example_recent, example_old] (Some ''30d'') = Inr (''_30d'', 71, 100, 30)"
  by (simp add: resolve_window_nonempty examples)


lemma count_distinct_never_positive:
  "\<forall>t\<in>set g. \<not> x t > 0 \<Longrightarrow> count_distinct_of (when_positive x v) g = Some 0"
  by (simp add: count_distinct_of_def count_distinct_def non_null_never_positive)

lemma sum_never_positive:
  "\<forall>t\<in>set g. \<not> x t > 0 \<Longrightarrow> sum_of (when_positive x v) g = None"
  by (simp add: sum_of_def sql_sum_def non_null_never_positive)

lemma old_household_window:
  "resolve_window [example_old] (Some ''90d'') = Inr (''_90d'', - 89, 0, 90)"
  by (simp add: resolve_window_nonempty examples)

lemma metric_names_base:
  "metric_names ws = map (\<lambda>b. if b = ''products_per_day'' then b @ ws else b) (metric_names [])"
  unfolding metric_names_def tables by simp

lemma products_per_day_base: "''products_per_day'' \<in> set (metric_names [])"
  unfolding metric_names_def tables by simp

lemma products_per_day_in: "''products_per_day'' @ ws \<in> set (metric_names ws)"
  unfolding metric_names_base [of ws] using products_per_day_base by force

lemma products_per_day_out:
  assumes "ws \<in> {''_30d'', ''_60d'', ''_90d'', ''_1yr''}"
  shows "''products_per_day'' \<notin> set (metric_names ws)"
proof
  assume "''products_per_day'' \<in> set (metric_names ws)"
  with names_plain [of ws]
  have "''products_per_day'' = ''products_per_day'' @ ws \<or> plain_name ''products_per_day''"
    unfolding list_all_iff by blast
  moreover have "\<not> plain_name ''products_per_day''" by (simp add: plain_name_def)
  moreover have "''products_per_day'' \<noteq> ''products_per_day'' @ ws" using assms by auto
  ultimately show False by blast
qed

lemma map_of_zip_nulls:
  "c \<in> set cs \<Longrightarrow> map_of (zip cs (replicate (length cs) None)) c = Some None"
  by (induction cs) auto

lemma feature_raw:
  assumes rw: "resolve_window df w = Inr (ws, mn, mx, d)"
  shows "feature (get_features T df ic w) k c =
     (if k \<in> grouping_key ic ` set T
      then map_of (zip (map (\<lambda>c. c @ grouping_suffix ic @ ws) (metric_names ws))
                    (agg_or_null ic (summary_metrics ws d) (in_window mn mx df) k
                       @ agg_or_null ic (dayssince_metrics mn mx) (lookback mx df) k)) c
      else None)"
  unfolding feature_def get_features_frame [OF rw]
  by (simp add: cell_def map_of_keyed)

lemma old_household_month:
  "resolve_window [example_old] (Some ''30d'') = Inr (''_30d'', - 29, 0, 30)"
  by (simp add: resolve_window_nonempty examples)


lemma resolve_window_supported:
  assumes "df \<noteq> []" and "w \<in> {''30d'', ''60d'', ''90d'', ''1yr''}"
  obtains mn mx d where "resolve_window df (Some w) = Inr (''_'' @ w, mn, mx, d)"
proof -
  from assms(2) have "\<exists>mn mx d. resolve_window df (Some w) = Inr (''_'' @ w, mn, mx, d)"
    unfolding resolve_window_nonempty [OF assms(1)]
    by (elim insertE emptyE) simp_all
  with that show thesis by blast
qed

lemma summary_null_outside_window:
  assumes rw: "resolve_window df w = Inr (ws, mn, mx, d)"
    and kT: "k \<in> grouping_key ic ` set T"
    and kW: "k \<notin> grouping_key ic ` set (in_window mn mx df)"
    and n: "n \<in> fst ` set (summary_metrics ws d)"
  shows "feature (get_features T df ic w) k (final_name n ic ws) = Some None"
proof -
  from n obtain m where "map_of (summary_metrics ws d) n = Some m"
    by (cases "map_of (summary_metrics ws d) n") (auto simp: map_of_eq_None_iff)
  from feature_summary [OF rw kT this] kW show ?thesis
    by (simp add: final_name_def)
qed

lemma in_summary_metrics:
  "map_of (summary_metrics ws d) n = Some m \<Longrightarrow> n \<in> fst ` set (summary_metrics ws d)"
  using map_of_eq_None_iff [of "summary_metrics ws d" n] by auto

lemma null_row:
  assumes rw: "resolve_window df w = Inr (ws, mn, mx, d)"
    and kT: "k \<in> grouping_key ic ` set T"
    and kW: "k \<notin> grouping_key ic ` set (in_window mn mx df)"
    and c: "c \<in> set (feature_columns (get_features T df ic w))"
  shows "feature (get_features T df ic w) k c = Some None"
proof -
  let ?cols = "map (\<lambda>c. c @ grouping_suffix ic @ ws) (metric_names ws)"
  have "agg_or_null ic (summary_metrics ws d) (in_window mn mx df) k
          @ agg_or_null ic (dayssince_metrics mn mx) (lookback mx df) k
        = replicate (length ?cols) None"
    unfolding dayssince_nulls using kW
    by (simp add: agg_or_null_def metric_names_eq [symmetric, of ws d mn mx] replicate_add)
  then show ?thesis
    using c kT unfolding feature_raw [OF rw] feature_columns_get_features [OF rw]
    by (simp only: if_True map_of_zip_nulls)
qed

lemma summary_column:
  assumes rw: "resolve_window df w = Inr (ws, mn, mx, d)"
    and n: "map_of (summary_metrics ws d) n = Some m"
  shows "final_name n ic ws \<in> set (feature_columns (get_features T df ic w))"
proof -
  have "n \<in> set (metric_names ws)"
    unfolding metric_names_eq [symmetric, of ws d mn mx]
    using in_summary_metrics [OF n] by simp
  then show ?thesis
    unfolding feature_columns_get_features [OF rw] final_name_def by simp
qed

lemma dayssince_column:
  assumes rw: "resolve_window df w = Inr (ws, mn, mx, d)"
  shows "final_name (''days_since_'' @ discount_name x) ic ws
           \<in> set (feature_columns (get_features T df ic w))"
proof -
  have "''days_since_'' @ discount_name x \<in> fst ` set (dayssince_metrics mn mx)"
    using map_of_SomeD [OF lookup_days_since [of mn mx x]] by (rule image_eqI [rotated]) simp
  then have "''days_since_'' @ discount_name x \<in> set (metric_names ws)"
    unfolding metric_names_eq [symmetric, of ws d mn mx] by simp
  then show ?thesis
    unfolding feature_columns_get_features [OF rw] final_name_def by simp
qed

section \<open>The claims\<close>

subsection \<open>One row per key\<close>

text \<open>
  Claim C1.  For a non-empty \<open>df\<close>, every supported window and both grouping modes, the call
  returns a frame with exactly one row per distinct grouping key of the full transaction
  set, the module-level table: no key is left out and none occurs twice.  A key without
  a transaction of \<open>df\<close> in the window has its row all the same, with a null in every
  metric column.  The statement holds for every module-level table, in particular when it
  is \<open>df\<close> itself.
\<close>

theorem one_row_per_key:
  assumes "df \<noteq> []" and "w \<in> {''30d'', ''60d'', ''90d'', ''1yr''}"
  shows "\<exists>mn mx d. resolve_window df (Some w) = Inr (''_'' @ w, mn, mx, d)
     \<and> distinct (feature_keys (get_features transactions df ic (Some w)))
     \<and> set (feature_keys (get_features transactions df ic (Some w)))
          = grouping_key ic ` set transactions
     \<and> (\<forall>k c. k \<in> grouping_key ic ` set transactions \<longrightarrow>
            k \<notin> grouping_key ic ` set (in_window mn mx df) \<longrightarrow>
            c \<in> set (feature_columns (get_features transactions df ic (Some w))) \<longrightarrow>
            feature (get_features transactions df ic (Some w)) k c = Some None)"
proof -
  from assms obtain mn mx d
    where rw: "resolve_window df (Some w) = Inr (''_'' @ w, mn, mx, d)"
    by (rule resolve_window_supported)
  have "distinct (feature_keys (get_features transactions df ic (Some w)))"
    "set (feature_keys (get_features transactions df ic (Some w)))
       = grouping_key ic ` set transactions"
    by (simp_all add: feature_keys_get_features [OF rw])
  moreover have "\<forall>k c. k \<in> grouping_key ic ` set transactions \<longrightarrow>
            k \<notin> grouping_key ic ` set (in_window mn mx df) \<longrightarrow>
            c \<in> set (feature_columns (get_features transactions df ic (Some w))) \<longrightarrow>
            feature (get_features transactions df ic (Some w)) k c = Some None"
    by (intro allI impI) (rule null_row [OF rw])
  ultimately show ?thesis
    using rw by (intro exI [of _ mn] exI [of _ mx] exI [of _ d] conjI)
qed

theorem one_row_per_key_witness:
  "[example_recent, example_old] \<noteq> [] \<and> ''30d'' \<in> {''30d'', ''60d'', ''90d'', ''1yr''}
   \<and> resolve_window [example_recent, example_old] (Some ''30d'') = Inr (''_30d'', 71, 100, 30)
   \<and> distinct (feature_keys (get_features [example_recent, example_old] [example_recent, example_old] False (Some ''30d'')))
   \<and> set (feature_keys (get_features [example_recent, example_old] [example_recent, example_old] False (Some ''30d'')))
        = {(1, None), (2, None)}
   \<and> (2, None) \<notin> grouping_key False ` set (in_window 71 100 [example_recent, example_old])
   \<and> feature (get_features [example_recent, example_old] [example_recent, example_old] False (Some ''30d''))
        (2, None) ''amount_list_30d'' = Some None
   \<and> feature (get_features [example_recent, example_old] [example_recent, example_old] False (Some ''30d''))
        (2, None) ''days_since_instore_discount_30d'' = Some None"
proof -
  let ?df = "[example_recent, example_old]"
  let ?r = "get_features ?df ?df False (Some ''30d'')"
  have ne: "?df \<noteq> []" by simp
  have w: "''30d'' \<in> {''30d'', ''60d'', ''90d'', ''1yr''}" by simp
  from one_row_per_key [OF ne w, of ?df False] obtain mn mx d
    where rw: "resolve_window ?df (Some ''30d'') = Inr (''_'' @ ''30d'', mn, mx, d)"
      and dk: "distinct (feature_keys ?r)"
      and ks: "set (feature_keys ?r) = grouping_key False ` set ?df"
      and nulls: "\<forall>k c. k \<in> grouping_key False ` set ?df \<longrightarrow>
            k \<notin> grouping_key False ` set (in_window mn mx ?df) \<longrightarrow>
            c \<in> set (feature_columns ?r) \<longrightarrow> feature ?r k c = Some None"
    by (elim exE conjE)
  from rw two_households_window have b: "mn = 71" "mx = 100" "d = 30" by simp_all
  have k: "(2, None) \<in> grouping_key False ` set ?df"
    by (simp add: grouping_key_def examples)
  have o: "(2, None) \<notin> grouping_key False ` set (in_window 71 100 ?df)"
    by (simp add: grouping_key_def in_window_def examples)
  have c1: "final_name ''amount_list'' False ''_30d'' \<in> set (feature_columns ?r)"
    by (rule summary_column [OF two_households_window in_summary_aggs [OF aggs_monetary(1)]])
  have c2: "final_name (''days_since_'' @ discount_name Instore) False ''_30d''
              \<in> set (feature_columns ?r)"
    by (rule dayssince_column [OF two_households_window])
  from nulls [rule_format, OF k _ c1] o
  have v1: "feature ?r (2, None) (final_name ''amount_list'' False ''_30d'') = Some None"
    unfolding b by blast
  from nulls [rule_format, OF k _ c2] o
  have v2: "feature ?r (2, None) (final_name (''days_since_'' @ discount_name Instore) False ''_30d'')
              = Some None"
    unfolding b by blast
  have "grouping_key False ` set ?df = {(1, None), (2, None)}"
    by (simp add: grouping_key_def examples)
  with v1 v2 show ?thesis
    using dk ks o two_households_window by (simp add: final_name_def grouping_suffix_def)
qed

subsection \<open>The resolved window\<close>

text \<open>
  Claim C2.  For a non-empty \<open>df\<close> whose greatest day is \<open>max\<close>, the window resolves to the
  inclusive range \<open>[max - 29, max]\<close> for \<^verbatim>\<open>'30d'\<close>, \<open>[max - 59, max]\<close> for \<^verbatim>\<open>'60d'\<close>,
  \<open>[max - 89, max]\<close> for \<^verbatim>\<open>'90d'\<close> and \<open>[max - 364, max - 335]\<close> for \<^verbatim>\<open>'1yr'\<close>, and
  \<^verbatim>\<open>days_in_window\<close>, the last component, is the number of days of that range: 30, 60, 90
  and 30, whatever the transactions are.
\<close>

theorem window_resolution:
  "df \<noteq> [] \<Longrightarrow>
     resolve_window df (Some ''30d'')
       = Inr (''_30d'', Max (day ` set df) - 29, Max (day ` set df), 30)
   \<and> resolve_window df (Some ''60d'')
       = Inr (''_60d'', Max (day ` set df) - 59, Max (day ` set df), 60)
   \<and> resolve_window df (Some ''90d'')
       = Inr (''_90d'', Max (day ` set df) - 89, Max (day ` set df), 90)
   \<and> resolve_window df (Some ''1yr'')
       = Inr (''_1yr'', Max (day ` set df) - 364, Max (day ` set df) - 335, 30)"
  by (simp add: resolve_window_nonempty)

theorem window_resolution_witness:
  "[example_recent, example_old] \<noteq> []
   \<and> resolve_window [example_recent, example_old] (Some ''60d'') = Inr (''_60d'', 41, 100, 60)
   \<and> resolve_window [example_recent, example_old] (Some ''1yr'') = Inr (''_1yr'', - 264, - 235, 30)"
  using window_resolution [of "[example_recent, example_old]"]
  by (simp add: example_recent_def example_old_def)

subsection \<open>Failures\<close>

text \<open>
  Claim C4, as amended.  A window token other than \<^verbatim>\<open>'30d'\<close>, \<^verbatim>\<open>'60d'\<close>, \<^verbatim>\<open>'90d'\<close> and
  \<^verbatim>\<open>'1yr'\<close> (the default \<^verbatim>\<open>None\<close> included) makes the call fail with the exception
  \<^verbatim>\<open>unknown window definition\<close>, for every input, the empty one included.  When the
  exception is raised the log of the call holds two events: the plan of the anchor frame
  and the job that collects the least and the greatest day of \<open>df\<close>.  So the rejection
  comes after that aggregation has run, and before the summary frame, the days-since frame
  and the joined frame are built; a call that returns has their events behind these two.
\<close>

theorem unknown_window_rejected_after_bounds:
  "w \<notin> {Some ''30d'', Some ''60d'', Some ''90d'', Some ''1yr''} \<Longrightarrow>
     get_features transactions df include_commodity w
       = ([Plan ''anchor_df'', Collect_min_max_day], Inl Unknown_window_definition)"
proof -
  assume w: "w \<notin> {Some ''30d'', Some ''60d'', Some ''90d'', Some ''1yr''}"
  then have "adjust_window w m = Inl Unknown_window_definition" for m
    by (simp add: adjust_window_def)
  then have "resolve_window df w = Inl Unknown_window_definition"
    by (simp add: resolve_window_def window_of_bounds_def)
  then show ?thesis by (rule get_features_raises)
qed

theorem unknown_window_rejected_after_bounds_witness:
  "Some ''7d'' \<notin> {Some ''30d'', Some ''60d'', Some ''90d'', Some ''1yr''}
   \<and> get_features [] [example_old] True (Some ''7d'')
       = ([Plan ''anchor_df'', Collect_min_max_day], Inl Unknown_window_definition)
   \<and> get_features [] [] False None
       = ([Plan ''anchor_df'', Collect_min_max_day], Inl Unknown_window_definition)"
  using unknown_window_rejected_after_bounds [of "Some ''7d''" "[]" "[example_old]" True]
    unknown_window_rejected_after_bounds [of None "[]" "[]" False]
  by simp

text \<open>
  The claim as stated, that the rejection precedes every aggregation over the transactions,
  fails: at the token \<^verbatim>\<open>'7d'\<close> the call is rejected, and the job that aggregates the days
  of \<open>df\<close> is in its log.
\<close>

theorem rejection_follows_aggregation:
  "snd (get_features [example_old] [example_old] False (Some ''7d'')) = Inl Unknown_window_definition
   \<and> Collect_min_max_day \<in> set (fst (get_features [example_old] [example_old] False (Some ''7d'')))"
  by (simp add: get_features_def and_then_def plan_def collect_rows_def evaluate_def
        window_of_bounds_def adjust_window_def)

text \<open>
  Claim C5.  On a \<open>df\<close> without rows the collected bounds are \<^verbatim>\<open>None\<close>, and for each of the
  four supported windows and both grouping modes the call fails: the subtraction of the
  \<^verbatim>\<open>timedelta\<close> from the undefined greatest day raises.
\<close>

theorem empty_dataset_fails:
  "snd (get_features transactions [] include_commodity (Some ''30d'')) = Inl TypeError_None_minus_timedelta
   \<and> snd (get_features transactions [] include_commodity (Some ''60d'')) = Inl TypeError_None_minus_timedelta
   \<and> snd (get_features transactions [] include_commodity (Some ''90d'')) = Inl TypeError_None_minus_timedelta
   \<and> snd (get_features transactions [] include_commodity (Some ''1yr'')) = Inl TypeError_None_minus_timedelta"
  by (simp add: get_features_raises resolve_window_empty)

subsection \<open>Days since the last discount\<close>




subsection \<open>Discount adoption counts\<close>

text \<open>
  Claim C8.  For a key of the anchor set that has a transaction in the window but none with
  a strictly positive discount of a given type, the counts of days, baskets and products
  with that discount are 0 (a distinct count over nulls only), while the count of line
  items with that discount is null (a sum over nulls only).
\<close>

theorem discount_counts_asymmetry:
  assumes rw: "resolve_window df w = Inr (ws, mn, mx, d)"
    and kT: "k \<in> grouping_key ic ` set transactions"
    and kW: "k \<in> grouping_key ic ` set (in_window mn mx df)"
    and no: "\<forall>t\<in>set (group_of ic k (in_window mn mx df)). \<not> discount_field x t > 0"
  shows "feature (get_features transactions df ic w) k
           (final_name (''days_with_'' @ discount_name x) ic ws) = Some (Some 0)
     \<and> feature (get_features transactions df ic w) k
           (final_name (''baskets_with_'' @ discount_name x) ic ws) = Some (Some 0)
     \<and> feature (get_features transactions df ic w) k
           (final_name (''products_with_'' @ discount_name x) ic ws) = Some (Some 0)
     \<and> feature (get_features transactions df ic w) k
           (final_name (''line_items_with_'' @ discount_name x) ic ws) = Some None"
  unfolding final_name_append
    feature_summary [OF rw kT in_summary_aggs [OF aggs_days_with]]
    feature_summary [OF rw kT in_summary_aggs [OF aggs_baskets_with]]
    feature_summary [OF rw kT in_summary_aggs [OF aggs_products_with]]
    feature_summary [OF rw kT in_summary_aggs [OF aggs_line_items_with]]
  using kW no
  by (simp add: days_with_def baskets_with_def products_with_def line_items_with_def
        count_distinct_never_positive sum_never_positive)

theorem discount_counts_asymmetry_witness:
  "resolve_window [example_old] (Some ''90d'') = Inr (''_90d'', - 89, 0, 90)
   \<and> (2, Some ''MILK'') \<in> grouping_key True ` set [example_old]
   \<and> (2, Some ''MILK'') \<in> grouping_key True ` set (in_window (- 89) 0 [example_old])
   \<and> group_of True (2, Some ''MILK'') (in_window (- 89) 0 [example_old]) = [example_old]
   \<and> discount_field Manuf_coupon example_old = 0
   \<and> feature (get_features [example_old] [example_old] True (Some ''90d'')) (2, Some ''MILK'')
        ''days_with_manuf_coupon_discount_cmd_90d'' = Some (Some 0)
   \<and> feature (get_features [example_old] [example_old] True (Some ''90d'')) (2, Some ''MILK'')
        ''line_items_with_manuf_coupon_discount_cmd_90d'' = Some None"
proof -
  have k: "(2, Some ''MILK'') \<in> grouping_key True ` set [example_old]"
    by (simp add: grouping_key_def examples)
  have l: "(2, Some ''MILK'') \<in> grouping_key True ` set (in_window (- 89) 0 [example_old])"
    by (simp add: grouping_key_def in_window_def examples)
  have n: "\<forall>t\<in>set (group_of True (2, Some ''MILK'') (in_window (- 89) 0 [example_old])).
          \<not> discount_field Manuf_coupon t > 0"
    by (simp add: group_of_def grouping_key_def in_window_def examples)
  have g: "group_of True (2, Some ''MILK'') (in_window (- 89) 0 [example_old]) = [example_old]"
    by (simp add: group_of_def grouping_key_def in_window_def examples)
  have z: "discount_field Manuf_coupon example_old = 0"
    by (simp add: examples)
  from discount_counts_asymmetry [OF old_household_window k l n]
  show ?thesis
    using k l g z by (simp add: old_household_window final_name_def grouping_suffix_def)
qed

subsection \<open>A single line item\<close>

text \<open>
  Claim C7.  For a transaction set of one line item (one household, one day, one basket)
  the call with the window \<^verbatim>\<open>'30d'\<close> and grouping by household returns one row, in which
  every monetary sum is the value of the line item, \<^verbatim>\<open>baskets_per_day\<close> is 1 and
  \<^verbatim>\<open>days_to_days_in_set\<close> is 1/30.  This holds for every such line item.
\<close>

theorem single_line_item_features:
  fixes t :: transaction
  defines "r \<equiv> get_features [t] [t] False (Some ''30d'')"
    and "k \<equiv> (household_key t, None)"
  shows "feature_keys r = [k]
     \<and> feature r k ''amount_list_30d'' = Some (Some (amount_list t))
     \<and> feature r k ''instore_discount_30d'' = Some (Some (instore_discount t))
     \<and> feature r k ''campaign_coupon_discount_30d'' = Some (Some (campaign_coupon_discount t))
     \<and> feature r k ''manuf_coupon_discount_30d'' = Some (Some (manuf_coupon_discount t))
     \<and> feature r k ''total_coupon_discount_30d'' = Some (Some (total_coupon_discount t))
     \<and> feature r k ''amount_paid_30d'' = Some (Some (amount_paid t))
     \<and> feature r k ''baskets_per_day_30d'' = Some (Some 1)
     \<and> feature r k ''days_to_days_in_set_30d'' = Some (Some (1 / 30))"
proof -
  have rw: "resolve_window [t] (Some ''30d'') = Inr (''_30d'', day t - 29, day t, 30)"
    by (simp add: resolve_window_nonempty)
  have kT: "k \<in> grouping_key False ` set [t]"
    by (simp add: k_def grouping_key_def)
  have g: "group_of False k (in_window (day t - 29) (day t) [t]) = [t]"
    by (simp add: group_of_def in_window_def k_def grouping_key_def)
  have kW: "k \<in> grouping_key False ` set (in_window (day t - 29) (day t) [t])"
    by (simp add: in_keys_group_of g)
  have s: "feature r k (n @ ''_30d'') = Some (m [t])"
    if "map_of (summary_metrics ''_30d'' 30) n = Some m" for n m
    using feature_summary [OF rw kT that] kW by (simp add: r_def g grouping_suffix_def)
  have m: "m_sum f [t] = Some (f t)" for f
    by (simp add: m_sum_def sum_of_def sql_sum_def col_def)
  have c: "m_days [t] = Some 1" "m_baskets [t] = Some 1"
    by (simp_all add: m_days_def m_baskets_def count_distinct_of_def count_distinct_def col_def)
  have "feature_keys r = [k]"
    unfolding r_def feature_keys_get_features [OF rw] by (simp add: k_def grouping_key_def)
  moreover have "feature r k (''amount_list'' @ ''_30d'') = Some (Some (amount_list t))"
    "feature r k (''instore_discount'' @ ''_30d'') = Some (Some (instore_discount t))"
    "feature r k (''campaign_coupon_discount'' @ ''_30d'') = Some (Some (campaign_coupon_discount t))"
    "feature r k (''manuf_coupon_discount'' @ ''_30d'') = Some (Some (manuf_coupon_discount t))"
    "feature r k (''total_coupon_discount'' @ ''_30d'') = Some (Some (total_coupon_discount t))"
    "feature r k (''amount_paid'' @ ''_30d'') = Some (Some (amount_paid t))"
    by (simp_all only: s [OF in_summary_aggs [OF aggs_monetary(1)]]
          s [OF in_summary_aggs [OF aggs_monetary(2)]] s [OF in_summary_aggs [OF aggs_monetary(3)]]
          s [OF in_summary_aggs [OF aggs_monetary(4)]] s [OF in_summary_aggs [OF aggs_monetary(5)]]
          s [OF in_summary_aggs [OF aggs_monetary(6)]] m)
  moreover have "feature r k (''baskets_per_day'' @ ''_30d'') = Some (Some 1)"
    unfolding s [OF lookup_baskets_per_day] by (simp add: ratio_def c sql_div_def)
  moreover have "feature r k (''days_to_days_in_set'' @ ''_30d'') = Some (Some (1 / 30))"
    unfolding s [OF lookup_days_to_days_in_set] by (simp add: per_literal_def c sql_div_def)
  ultimately show ?thesis by simp
qed

theorem single_line_item_features_witness:
  "feature (get_features [example_recent] [example_recent] False (Some ''30d'')) (1, None)
     ''amount_list_30d'' = Some (Some 5)
   \<and> feature (get_features [example_recent] [example_recent] False (Some ''30d'')) (1, None)
     ''instore_discount_30d'' = Some (Some 1)
   \<and> feature (get_features [example_recent] [example_recent] False (Some ''30d'')) (1, None)
     ''days_to_days_in_set_30d'' = Some (Some (1 / 30))"
  using single_line_item_features [of example_recent]
  by (simp add: examples)

subsection \<open>Column names\<close>

text \<open>
  Claim C9.  The names of the metric columns of the outcome are the base names, which do
  not depend on the window or the grouping, each followed once by the grouping suffix and
  the window suffix; the one exception is \<^verbatim>\<open>products_per_day\<close>, which is created with the
  window suffix in its name and gets the suffixes appended after it, so that the window
  suffix occurs twice (\<^verbatim>\<open>products_per_day_30d_30d\<close>) and no column has the name with the
  suffix once.
\<close>

theorem products_per_day_suffixed_twice:
  assumes rw: "resolve_window df w = Inr (ws, mn, mx, d)"
  shows "feature_columns (get_features transactions df ic w)
           = map (\<lambda>b. final_name (if b = ''products_per_day'' then b @ ws else b) ic ws)
               (metric_names [])
     \<and> ''products_per_day'' \<in> set (metric_names [])
     \<and> final_name (''products_per_day'' @ ws) ic ws
          \<in> set (feature_columns (get_features transactions df ic w))
     \<and> final_name ''products_per_day'' ic ws
          \<notin> set (feature_columns (get_features transactions df ic w))"
proof -
  have ws: "ws \<in> {''_30d'', ''_60d'', ''_90d'', ''_1yr''}"
    using rw by (rule resolve_window_suffix)
  have cols: "feature_columns (get_features transactions df ic w)
                = map (\<lambda>c. final_name c ic ws) (metric_names ws)"
    unfolding feature_columns_get_features [OF rw] final_name_def ..
  have "map (\<lambda>c. final_name c ic ws) (metric_names ws)
          = map (\<lambda>b. final_name (if b = ''products_per_day'' then b @ ws else b) ic ws)
               (metric_names [])"
    by (subst metric_names_base) (simp add: comp_def)
  moreover have "final_name (''products_per_day'' @ ws) ic ws
          \<in> set (map (\<lambda>c. final_name c ic ws) (metric_names ws))"
    using products_per_day_in [of ws] by (simp only: set_map image_eqI)
  moreover have "final_name ''products_per_day'' ic ws
          \<notin> set (map (\<lambda>c. final_name c ic ws) (metric_names ws))"
    using products_per_day_out [OF ws] by (auto simp: final_name_def)
  ultimately show ?thesis
    unfolding cols using products_per_day_base by simp
qed

theorem products_per_day_suffixed_twice_witness:
  "resolve_window [example_old] (Some ''30d'') = Inr (''_30d'', - 29, 0, 30)
   \<and> ''products_per_day_30d_30d''
        \<in> set (feature_columns (get_features [example_old] [example_old] False (Some ''30d'')))
   \<and> ''products_per_day_30d''
        \<notin> set (feature_columns (get_features [example_old] [example_old] False (Some ''30d'')))"
proof -
  note th = products_per_day_suffixed_twice [OF old_household_month, of "[example_old]" False]
  from th have "final_name (''products_per_day'' @ ''_30d'') False ''_30d''
        \<in> set (feature_columns (get_features [example_old] [example_old] False (Some ''30d'')))"
    by blast
  moreover from th have "final_name ''products_per_day'' False ''_30d''
        \<notin> set (feature_columns (get_features [example_old] [example_old] False (Some ''30d'')))"
    by blast
  ultimately show ?thesis
    using old_household_month by (simp add: final_name_def grouping_suffix_def)
qed

subsection \<open>The anchor keys\<close>



end
